theory Spec2Isabelle
  imports Complex_Main "HOL-Library.Char_ord" "HOL-Library.List_Lexorder"
begin

section \<open>Values shared by the synchronizer and the feature calculator\<close>

text \<open>
  A Python/numpy float. Finite values are modelled as exact reals: rounding and signed
  zero are abstracted away, the three special values are kept because the code can produce
  them (\<open>pd.to_numeric(..., errors="coerce")\<close> produces NaN, division by zero produces an
  infinity).
\<close>

datatype fval = NaN | NInf | Fin real | PInf

text \<open>Every exception the two modules can raise, as a value.\<close>

datatype error =
    EmptyRange            \<comment> \<open>\<open>ValueError("No data found for the given time range.")\<close>\<close>
  | InvalidWindow         \<comment> \<open>\<open>ValueError\<close> of \<open>rolling\<close>: \<open>min_periods=1\<close> needs \<open>window \<ge> 1\<close>\<close>
  | OverflowError         \<comment> \<open>\<open>astype("int64")\<close> on an integer outside 64 bits\<close>
  | OutOfBoundsDatetime   \<comment> \<open>a timestamp outside pandas' nanosecond range\<close>
  | ExchangeError         \<comment> \<open>the Binance client raised\<close>
  | KeyError              \<comment> \<open>the selection of \<open>p50\<close>, \<open>p75\<close>, \<open>p90\<close> found no such rows\<close>

section \<open>Calendar arithmetic\<close>

text \<open>
  \<open>datetime(2017, 1, 1, 0, 0, 0, tzinfo=timezone.utc).timestamp()\<close> subtracts the epoch
  from the date; CPython counts days with proleptic Gregorian ordinals.
\<close>

definition is_leap :: "int \<Rightarrow> bool" where
  "is_leap y = (y mod 4 = 0 \<and> (y mod 100 \<noteq> 0 \<or> y mod 400 = 0))"

definition days_before_year :: "int \<Rightarrow> int" where
  "days_before_year year =
     (let y = year - 1 in y * 365 + y div 4 - y div 100 + y div 400)"

definition days_in_month :: "int \<Rightarrow> int \<Rightarrow> int" where
  "days_in_month year month =
     (if month = 2 then (if is_leap year then 29 else 28)
      else if month = 4 \<or> month = 6 \<or> month = 9 \<or> month = 11 then 30 else 31)"

fun days_before_month :: "int \<Rightarrow> nat \<Rightarrow> int" where
  "days_before_month year 0 = 0"
| "days_before_month year (Suc 0) = 0"
| "days_before_month year (Suc (Suc m)) =
     days_before_month year (Suc m) + days_in_month year (int (Suc m))"

definition ymd2ord :: "int \<Rightarrow> nat \<Rightarrow> int \<Rightarrow> int" where
  "ymd2ord year month day = days_before_year year + days_before_month year month + day"

definition timestamp :: "int \<Rightarrow> nat \<Rightarrow> int \<Rightarrow> int \<Rightarrow> int \<Rightarrow> int \<Rightarrow> int" where
  "timestamp year month day hour minute second =
     (ymd2ord year month day - ymd2ord 1970 1 1) * 86400 + hour * 3600 + minute * 60 + second"

text \<open>
  From a day count since 1970-01-01 back to year, month and day, the way the datetime
  structure behind \<open>strftime\<close> is filled: whole 400-year cycles counted from 2000, then
  centuries, 4-year blocks and years, then months.
\<close>

definition days_to_yearsdays :: "int \<Rightarrow> int \<times> int" where
  "days_to_yearsdays days0 =
     (let days = days0 - (365 * 30 + 7);
          year = 400 * (days div 146097);
          days = days mod 146097
      in if days \<ge> 366 then
           (let year = year + 100 * ((days - 1) div 36524);
                days = (days - 1) mod 36524
            in if days \<ge> 365 then
                 (let year = year + 4 * ((days + 1) div 1461);
                      days = (days + 1) mod 1461
                  in if days \<ge> 366 then
                       (year + (days - 1) div 365 + 2000, (days - 1) mod 365)
                     else (year + 2000, days))
               else (year + 2000, days))
         else (year + 2000, days))"

fun month_day :: "int \<Rightarrow> nat \<Rightarrow> int \<Rightarrow> int \<times> int" where
  "month_day year 0 d = (12, d + 1)"
| "month_day year (Suc k) d =
     (let m = 12 - int (Suc k); n = days_in_month year m
      in if d < n then (m, d + 1) else month_day year k (d - n))"

definition civil_from_days :: "int \<Rightarrow> int \<times> int \<times> int" where
  "civil_from_days days =
     (let (year, yday) = days_to_yearsdays days;
          (month, day) = month_day year 11 yday
      in (year, month, day))"

section \<open>Formatting\<close>

definition digit :: "int \<Rightarrow> char" where
  "digit d = char_of (48 + d)"

definition pad2 :: "int \<Rightarrow> string" where
  "pad2 n = [digit (n div 10 mod 10), digit (n mod 10)]"

definition pad4 :: "int \<Rightarrow> string" where
  "pad4 n = pad2 (n div 100) @ pad2 n"

text \<open>
  \<open>strftime("%Y-%m-%d %H:%M")\<close> of a UTC-based instant given in nanoseconds since the
  epoch. Years are within 1677..2262 here (the nanosecond range), so \<open>%Y\<close> has four digits.
\<close>

definition strftime :: "int \<Rightarrow> string" where
  "strftime ns =
     (let secs = ns div 1000000000;
          (year, month, day) = civil_from_days (secs div 86400);
          sod = secs mod 86400
      in pad4 year @ ''-'' @ pad2 month @ ''-'' @ pad2 day @ '' '' @
         pad2 (sod div 3600) @ '':'' @ pad2 (sod mod 3600 div 60))"

section \<open>The store\<close>

text \<open>
  One row of the candle table. The five numeric columns hold a float or SQL NULL
  (\<open>None\<close>). The table is a list in scan order: \<open>INSERT\<close> appends, a \<open>SELECT\<close> without
  \<open>ORDER BY\<close> reads it front to back.
\<close>

record candle =
  open_time_ms :: int
  open_time :: string
  open_val :: "fval option"
  high :: "fval option"
  low :: "fval option"
  close :: "fval option"
  volume :: "fval option"

text \<open>
  Modelled from the spec: the \<open>CREATE TABLE\<close> statement is not part of the repository.
  The spec keys the series on \<open>open_time_ms\<close> ("insert-if-absent (keyed on open_time_ms)"),
  and the code adds that column "for PK"; no other constraint is assumed.
\<close>

definition primary_key :: "candle \<Rightarrow> int" where
  "primary_key r = open_time_ms r"

text \<open>\<open>SELECT MAX(open_time_ms) FROM table\<close>: NULL on an empty table.\<close>

definition select_max_open_time_ms :: "candle list \<Rightarrow> int option" where
  "select_max_open_time_ms db =
     (case db of [] \<Rightarrow> None
      | r # rs \<Rightarrow> Some (fold (\<lambda>x m. max m (open_time_ms x)) rs (open_time_ms r)))"

text \<open>The tuples handed to \<open>executemany\<close>, in column order.\<close>

type_synonym record_tuple = "int \<times> string \<times> fval \<times> fval \<times> fval \<times> fval \<times> fval"

text \<open>Binding a Python float: sqlite stores a NaN as NULL.\<close>

definition bind_float :: "fval \<Rightarrow> fval option" where
  "bind_float x = (if x = NaN then None else Some x)"

definition to_row :: "record_tuple \<Rightarrow> candle" where
  "to_row t =
     (case t of (ms, ot, o_v, h, l, c, v) \<Rightarrow>
        \<lparr>open_time_ms = ms, open_time = ot, open_val = bind_float o_v, high = bind_float h,
         low = bind_float l, close = bind_float c, volume = bind_float v\<rparr>)"

text \<open>\<open>INSERT OR IGNORE\<close>: a row whose key is already present is skipped.\<close>

definition insert_or_ignore :: "candle list \<Rightarrow> record_tuple \<Rightarrow> candle list" where
  "insert_or_ignore db t =
     (if primary_key (to_row t) \<in> set (map primary_key db) then db else db @ [to_row t])"

definition executemany :: "candle list \<Rightarrow> record_tuple list \<Rightarrow> candle list" where
  "executemany db records = foldl insert_or_ignore db records"

section \<open>data\_sync.py\<close>

text \<open>
  A raw kline as the exchange returns it: the open time in epoch milliseconds and the
  prices as text. The six further columns of a kline (\<open>close_time\<close> ... \<open>ignore\<close>) are
  dropped by the column selection before anything reads them and are left out.
\<close>

record kline =
  raw_open_time :: int
  raw_open :: string
  raw_high :: string
  raw_low :: string
  raw_close :: string
  raw_volume :: string

text \<open>The Binance client: each call returns its answer or raises.\<close>

record client =
  get_server_time :: "error + int"
  get_historical_klines :: "string \<Rightarrow> string \<Rightarrow> int \<Rightarrow> int \<Rightarrow> error + kline list"

definition symbol :: string where
  "symbol = ''BCHUSDT''"

definition interval :: string where
  "interval = ''1m''"

text \<open>A column operation raises at the first element that fails.\<close>

fun sequence :: "('e + 'a) list \<Rightarrow> 'e + 'a list" where
  "sequence [] = Inr []"
| "sequence (x # xs) =
     (case x of Inl e \<Rightarrow> Inl e
      | Inr v \<Rightarrow> (case sequence xs of Inl e \<Rightarrow> Inl e | Inr vs \<Rightarrow> Inr (v # vs)))"

definition astype_int64 :: "int \<Rightarrow> error + int" where
  "astype_int64 v = (if - (2 ^ 63) \<le> v \<and> v < 2 ^ 63 then Inr v else Inl OverflowError)"

text \<open>
  \<open>pd.to_datetime(..., unit="ms", utc=True)\<close>: nanoseconds since the epoch in 64 bits,
  the least value being reserved for NaT.
\<close>

definition to_datetime :: "int \<Rightarrow> error + int" where
  "to_datetime ms =
     (let ns = ms * 1000000
      in if - (2 ^ 63) < ns \<and> ns < 2 ^ 63 then Inr ns else Inl OutOfBoundsDatetime)"

definition add_timedelta :: "int \<Rightarrow> int \<Rightarrow> error + int" where
  "add_timedelta delta ns =
     (if - (2 ^ 63) < ns + delta \<and> ns + delta < 2 ^ 63 then Inr (ns + delta)
      else Inl OutOfBoundsDatetime)"

definition hours :: "int \<Rightarrow> int" where
  "hours h = h * 3600 * 1000000000"

definition floor_min :: "int \<Rightarrow> int" where
  "floor_min ns = ns - ns mod 60000000000"

fun itertuples ::
  "int list \<Rightarrow> string list \<Rightarrow> fval list \<Rightarrow> fval list \<Rightarrow> fval list \<Rightarrow> fval list \<Rightarrow> fval list
     \<Rightarrow> record_tuple list" where
  "itertuples (a # as) (b # bs) (c # cs) (d # ds) (e # es) (f # fs) (g # gs) =
     (a, b, c, d, e, f, g) # itertuples as bs cs ds es fs gs"
| "itertuples _ _ _ _ _ _ _ = []"

text \<open>
  Lines 80 to 109: the frame is built column by column. \<open>to_numeric\<close> is the element
  parser of \<open>pd.to_numeric(..., errors="coerce")\<close>, which yields NaN where the text is not a
  number; it is a parameter of the model.
\<close>

definition normalize :: "(string \<Rightarrow> fval) \<Rightarrow> kline list \<Rightarrow> error + record_tuple list" where
  "normalize to_numeric raw_data =
     (case sequence (map (\<lambda>r. astype_int64 (raw_open_time r)) raw_data) of
        Inl e \<Rightarrow> Inl e
      | Inr ms_col \<Rightarrow>
          (case sequence (map to_datetime ms_col) of
             Inl e \<Rightarrow> Inl e
           | Inr dt_utc \<Rightarrow>
               (case sequence (map (add_timedelta (hours 2)) dt_utc) of
                  Inl e \<Rightarrow> Inl e
                | Inr shifted \<Rightarrow>
                    (let dt_local = map floor_min shifted;
                         open_time_col = map strftime dt_local
                     in Inr (itertuples ms_col open_time_col
                          (map (\<lambda>r. to_numeric (raw_open r)) raw_data)
                          (map (\<lambda>r. to_numeric (raw_high r)) raw_data)
                          (map (\<lambda>r. to_numeric (raw_low r)) raw_data)
                          (map (\<lambda>r. to_numeric (raw_close r)) raw_data)
                          (map (\<lambda>r. to_numeric (raw_volume r)) raw_data))))))"

text \<open>What a run prints, and the calls it makes on its two collaborators.\<close>

datatype message =
    NoNewData                    \<comment> \<open>"No new data to sync."\<close>
  | NoDataReturned               \<comment> \<open>"No data returned by Binance."\<close>
  | Inserted nat string string   \<comment> \<open>"Inserted rows: n", "Range inserted: min -> max"\<close>

datatype call =
    SelectMax
  | GetServerTime
  | GetHistoricalKlines string string int int
  | ExecuteMany "record_tuple list"

record run =
  outcome :: "error + message"
  db_after :: "candle list"
  calls :: "call list"

definition epoch_floor :: int where
  "epoch_floor = timestamp 2017 1 1 0 0 0 * 1000"

definition start_ms :: "candle list \<Rightarrow> int" where
  "start_ms db =
     (case select_max_open_time_ms db of None \<Rightarrow> epoch_floor | Some m \<Rightarrow> m + 60000)"

definition end_ms :: "int \<Rightarrow> int" where
  "end_ms server_ms = server_ms - server_ms mod 60000"

definition column_min :: "string list \<Rightarrow> string" where
  "column_min xs = (case xs of [] \<Rightarrow> [] | y # ys \<Rightarrow> fold min ys y)"

definition column_max :: "string list \<Rightarrow> string" where
  "column_max xs = (case xs of [] \<Rightarrow> [] | y # ys \<Rightarrow> fold max ys y)"

definition sync_data :: "(string \<Rightarrow> fval) \<Rightarrow> client \<Rightarrow> candle list \<Rightarrow> run" where
  "sync_data to_numeric cl db =
     (case get_server_time cl of
        Inl e \<Rightarrow> \<lparr>outcome = Inl e, db_after = db, calls = [SelectMax, GetServerTime]\<rparr>
      | Inr server_ms \<Rightarrow>
          if start_ms db \<ge> end_ms server_ms then
            \<lparr>outcome = Inr NoNewData, db_after = db, calls = [SelectMax, GetServerTime]\<rparr>
          else
            (let fetch = GetHistoricalKlines symbol interval (start_ms db) (end_ms server_ms)
             in case get_historical_klines cl symbol interval (start_ms db) (end_ms server_ms) of
                  Inl e \<Rightarrow>
                    \<lparr>outcome = Inl e, db_after = db, calls = [SelectMax, GetServerTime, fetch]\<rparr>
                | Inr raw_data \<Rightarrow>
                    if raw_data = [] then
                      \<lparr>outcome = Inr NoDataReturned, db_after = db,
                       calls = [SelectMax, GetServerTime, fetch]\<rparr>
                    else
                      (case normalize to_numeric raw_data of
                         Inl e \<Rightarrow>
                           \<lparr>outcome = Inl e, db_after = db,
                            calls = [SelectMax, GetServerTime, fetch]\<rparr>
                       | Inr records \<Rightarrow>
                           \<lparr>outcome = Inr (Inserted (length records)
                              (column_min (map (\<lambda>t. fst (snd t)) records))
                              (column_max (map (\<lambda>t. fst (snd t)) records))),
                            db_after = executemany db records,
                            calls = [SelectMax, GetServerTime, fetch, ExecuteMany records]\<rparr>)))"

section \<open>Float arithmetic with the special values\<close>

fun fneg :: "fval \<Rightarrow> fval" where
  "fneg (Fin x) = Fin (- x)"
| "fneg PInf = NInf"
| "fneg NInf = PInf"
| "fneg NaN = NaN"

fun fadd :: "fval \<Rightarrow> fval \<Rightarrow> fval" where
  "fadd (Fin x) (Fin y) = Fin (x + y)"
| "fadd NaN _ = NaN"
| "fadd _ NaN = NaN"
| "fadd PInf NInf = NaN"
| "fadd NInf PInf = NaN"
| "fadd PInf _ = PInf"
| "fadd _ PInf = PInf"
| "fadd NInf _ = NInf"
| "fadd _ NInf = NInf"

definition fsub :: "fval \<Rightarrow> fval \<Rightarrow> fval" where
  "fsub a b = fadd a (fneg b)"

fun fmul :: "fval \<Rightarrow> fval \<Rightarrow> fval" where
  "fmul (Fin x) (Fin y) = Fin (x * y)"
| "fmul NaN _ = NaN"
| "fmul _ NaN = NaN"
| "fmul (Fin x) i = (if x = 0 then NaN else if x > 0 then i else fneg i)"
| "fmul i (Fin y) = (if y = 0 then NaN else if y > 0 then i else fneg i)"
| "fmul i j = (if i = j then PInf else NInf)"

text \<open>Division as numpy does it: no exception, a zero divisor gives an infinity or NaN.\<close>

fun fdiv :: "fval \<Rightarrow> fval \<Rightarrow> fval" where
  "fdiv (Fin x) (Fin y) =
     (if y \<noteq> 0 then Fin (x / y) else if x = 0 then NaN else if x > 0 then PInf else NInf)"
| "fdiv NaN _ = NaN"
| "fdiv _ NaN = NaN"
| "fdiv (Fin x) _ = Fin 0"
| "fdiv i (Fin y) = (if y \<ge> 0 then i else fneg i)"
| "fdiv _ _ = NaN"

text \<open>The comparison \<open><\<close> of floats: false as soon as a NaN is involved.\<close>

fun fless :: "fval \<Rightarrow> fval \<Rightarrow> bool" where
  "fless (Fin x) (Fin y) = (x < y)"
| "fless NInf (Fin y) = True"
| "fless NInf PInf = True"
| "fless (Fin x) PInf = True"
| "fless _ _ = False"

definition fmax :: "fval \<Rightarrow> fval \<Rightarrow> fval" where
  "fmax a b = (if fless a b then b else a)"

definition notna :: "fval \<Rightarrow> bool" where
  "notna x = (x \<noteq> NaN)"

section \<open>prep\_target.py\<close>

text \<open>
  \<open>SELECT open_time, close FROM table WHERE open_time BETWEEN ? AND ?\<close>: the rows whose
  display string lies between the two bounds as text, both ends included, in scan order
  (the statement has no \<open>ORDER BY\<close>).
\<close>

definition read_sql_query ::
  "candle list \<Rightarrow> string \<Rightarrow> string \<Rightarrow> (string \<times> fval option) list" where
  "read_sql_query db open_time_from open_time_to =
     map (\<lambda>r. (open_time r, close r))
       (filter (\<lambda>r. open_time_from \<le> open_time r \<and> open_time r \<le> open_time_to) db)"

text \<open>
  The frame infers the type of each column from the values read. A close column holding
  at least one number is a float column, in which a NULL is a NaN. A close column in which
  every value is NULL is an object column of \<open>None\<close>: the rolling maximum of it is all NaN,
  the division yields an object column again, and \<open>describe\<close> of an object column reports
  count, unique, top and freq and no percentile, so that the selection of \<open>p50\<close>, \<open>p75\<close>,
  \<open>p90\<close> in the last statement raises.
\<close>

definition read_float :: "fval option \<Rightarrow> fval" where
  "read_float v = (case v of None \<Rightarrow> NaN | Some x \<Rightarrow> x)"

definition close_column :: "(string \<times> fval option) list \<Rightarrow> fval list" where
  "close_column df = map (\<lambda>t. read_float (snd t)) df"

definition object_dtype :: "(string \<times> fval option) list \<Rightarrow> bool" where
  "object_dtype df = list_all (\<lambda>t. snd t = None) df"

text \<open>
  \<open>rolling(window, min_periods=1).max()\<close>: at row \<open>i\<close> the window is the rows
  \<open>i - window + 1 .. i\<close> that exist; NaN entries are not observations; with no
  observation in the window the result is NaN.
\<close>

definition nanmax :: "fval list \<Rightarrow> fval" where
  "nanmax xs = (case filter notna xs of [] \<Rightarrow> NaN | y # ys \<Rightarrow> fold (\<lambda>x m. fmax m x) ys y)"

definition rolling_max :: "nat \<Rightarrow> fval list \<Rightarrow> fval list" where
  "rolling_max window xs =
     map (\<lambda>i. nanmax (drop (Suc i - window) (take (Suc i) xs))) [0..<length xs]"

text \<open>
  \<open>describe(percentiles=[0.5, 0.75, 0.9])\<close> takes each percentile with
  \<open>Series.quantile\<close>: NaN entries are dropped, the rest is sorted, and the value at the
  fractional position \<open>q * (n - 1)\<close> is interpolated linearly between its two neighbours.
\<close>

fun insort_f :: "fval \<Rightarrow> fval list \<Rightarrow> fval list" where
  "insort_f x [] = [x]"
| "insort_f x (y # ys) = (if fless y x then y # insort_f x ys else x # y # ys)"

definition sort_f :: "fval list \<Rightarrow> fval list" where
  "sort_f xs = foldr insort_f xs []"

definition lerp :: "fval \<Rightarrow> fval \<Rightarrow> real \<Rightarrow> fval" where
  "lerp a b t =
     (let diff_b_a = fsub b a
      in if t \<ge> 1 / 2 then fsub b (fmul diff_b_a (Fin (1 - t)))
         else fadd a (fmul diff_b_a (Fin t)))"

definition dropna :: "fval list \<Rightarrow> fval list" where
  "dropna xs = filter notna xs"

definition quantile :: "fval list \<Rightarrow> real \<Rightarrow> fval" where
  "quantile xs q =
     (let arr = sort_f (dropna xs); n = length arr
      in if n = 0 then NaN
         else
           (let virtual_index = q * real (n - 1);
                previous_index = nat \<lfloor>virtual_index\<rfloor>;
                next_index = (if previous_index + 1 < n then previous_index + 1 else n - 1);
                gamma = virtual_index - real previous_index
            in lerp (arr ! previous_index) (arr ! next_index) gamma))"

record percentiles =
  p50 :: fval
  p75 :: fval
  p90 :: fval

definition ratio_column :: "nat \<Rightarrow> fval list \<Rightarrow> fval list" where
  "ratio_column window close_col = map2 fdiv (rolling_max window close_col) close_col"

definition calculate_target_percentiles ::
  "candle list \<Rightarrow> string \<Rightarrow> string \<Rightarrow> int \<Rightarrow> error + percentiles" where
  "calculate_target_percentiles db open_time_from open_time_to window =
     (let df = read_sql_query db open_time_from open_time_to
      in if df = [] then Inl EmptyRange
         else if window < 1 then Inl InvalidWindow
         else if object_dtype df then Inl KeyError
         else
           (let ratio = ratio_column (nat window) (close_column df)
            in Inr \<lparr>p50 = quantile ratio (1 / 2), p75 = quantile ratio (3 / 4),
                    p90 = quantile ratio (9 / 10)\<rparr>))"

section \<open>Sample data and specification-side definitions\<close>

definition sample_row :: "int \<Rightarrow> string \<Rightarrow> fval option \<Rightarrow> candle" where
  "sample_row ms t c =
     \<lparr>open_time_ms = ms, open_time = t, open_val = c, high = c, low = c, close = c, volume = c\<rparr>"

text \<open>
  The open times for which neither \<open>pd.to_datetime\<close> nor the addition of the two hours
  leaves the nanosecond range (from 1677-09-21 to 2262-04-11).
\<close>

definition representable :: "int \<Rightarrow> bool" where
  "representable ms = (- 9223372036854 \<le> ms \<and> ms \<le> 9223364836854)"

text \<open>
  The display string as the specification words it: add the fixed offset of +2 hours to the
  UTC instant, truncate to the minute, and write the minute as \<open>YYYY-MM-DD HH:MM\<close>.
\<close>

definition display_string :: "int \<Rightarrow> string" where
  "display_string ms =
     (let local_ms = ms + 2 * 3600 * 1000;
          minutes = local_ms div 60000;
          (year, month, day) = civil_from_days (minutes div 1440)
      in pad4 year @ ''-'' @ pad2 month @ ''-'' @ pad2 day @ '' '' @
         pad2 (minutes mod 1440 div 60) @ '':'' @ pad2 (minutes mod 60))"

text \<open>A candle as the specification describes its normalization, row by row.\<close>

definition normalize_row :: "(string \<Rightarrow> fval) \<Rightarrow> kline \<Rightarrow> record_tuple" where
  "normalize_row to_numeric r =
     (raw_open_time r, display_string (raw_open_time r), to_numeric (raw_open r),
      to_numeric (raw_high r), to_numeric (raw_low r), to_numeric (raw_close r),
      to_numeric (raw_volume r))"

definition sample_kline :: "int \<Rightarrow> string \<Rightarrow> kline" where
  "sample_kline ms c =
     \<lparr>raw_open_time = ms, raw_open = ''431.15'', raw_high = ''431.9'', raw_low = ''430.0'',
      raw_close = c, raw_volume = ''12.5''\<rparr>"

definition sample_to_numeric :: "string \<Rightarrow> fval" where
  "sample_to_numeric s =
     (if s = ''431.15'' then Fin (8623 / 20) else if s = ''431.9'' then Fin (4319 / 10)
      else if s = ''430.0'' then Fin 430 else if s = ''12.5'' then Fin (25 / 2) else NaN)"

section \<open>The synchronizer\<close>

lemma insert_or_ignore_prefix: "\<exists>new. insert_or_ignore db t = db @ new"
  by (simp add: insert_or_ignore_def)

lemma executemany_prefix: "\<exists>new. executemany db records = db @ new"
  unfolding executemany_def
proof (induction records arbitrary: db)
  case Nil
  show ?case by simp
next
  case (Cons t ts)
  obtain n1 where n1: "insert_or_ignore db t = db @ n1"
    using insert_or_ignore_prefix by blast
  obtain n2 where "foldl insert_or_ignore (insert_or_ignore db t) ts = insert_or_ignore db t @ n2"
    using Cons.IH by blast
  with n1 show ?case by simp
qed

lemma executemany_Cons:
  "executemany db (t # ts) = executemany (insert_or_ignore db t) ts"
  by (simp add: executemany_def)

lemma keys_insert_or_ignore:
  "primary_key ` set (insert_or_ignore db t) = insert (primary_key (to_row t)) (primary_key ` set db)"
  by (auto simp: insert_or_ignore_def)

lemma keys_executemany:
  "primary_key ` set (executemany db records) =
     primary_key ` set db \<union> (\<lambda>t. primary_key (to_row t)) ` set records"
proof (induction records arbitrary: db)
  case Nil
  show ?case by (simp add: executemany_def)
next
  case (Cons t ts)
  show ?case
    unfolding executemany_Cons Cons.IH keys_insert_or_ignore by auto
qed

lemma executemany_present:
  "(\<lambda>t. primary_key (to_row t)) ` set records \<subseteq> primary_key ` set db
     \<Longrightarrow> executemany db records = db"
proof (induction records arbitrary: db)
  case Nil
  show ?case by (simp add: executemany_def)
next
  case (Cons t ts)
  from Cons.prems have "insert_or_ignore db t = db"
    by (simp add: insert_or_ignore_def)
  with Cons show ?case by (simp add: executemany_Cons)
qed

lemma distinct_insert_or_ignore:
  "distinct (map primary_key db) \<Longrightarrow> distinct (map primary_key (insert_or_ignore db t))"
  by (simp add: insert_or_ignore_def)

lemma distinct_executemany:
  "distinct (map primary_key db) \<Longrightarrow> distinct (map primary_key (executemany db records))"
  by (induction records arbitrary: db)
     (simp_all add: executemany_def distinct_insert_or_ignore)

lemma at_most_one:
  "distinct (map f xs) \<Longrightarrow> length (filter (\<lambda>x. f x = k) xs) \<le> 1"
  by (induction xs) (auto simp: filter_empty_conv image_iff)

text \<open>
  Claim C1. The merge of \<open>sync_data\<close> (\<open>INSERT OR IGNORE\<close> through \<open>executemany\<close>) is
  idempotent: merging the same records a second time changes neither the content nor the
  number of rows; the rows already stored stay where they are, unchanged; a record whose
  key is present is ignored; and a store with one row per \<open>open_time_ms\<close> keeps one row
  per \<open>open_time_ms\<close>.
\<close>

theorem merge_idempotent:
  "executemany (executemany db records) records = executemany db records
   \<and> length (executemany (executemany db records) records) = length (executemany db records)
   \<and> take (length db) (executemany db records) = db
   \<and> (primary_key (to_row t) \<in> primary_key ` set db \<longrightarrow> insert_or_ignore db t = db)
   \<and> (distinct (map open_time_ms db) \<longrightarrow>
        distinct (map open_time_ms (executemany db records))
        \<and> length (filter (\<lambda>r. open_time_ms r = k) (executemany db records)) \<le> 1)"
proof -
  have idem: "executemany (executemany db records) records = executemany db records"
    by (rule executemany_present) (simp add: keys_executemany)
  obtain new where "executemany db records = db @ new"
    using executemany_prefix by blast
  then have pre: "take (length db) (executemany db records) = db" by simp
  have ign: "primary_key (to_row t) \<in> primary_key ` set db \<longrightarrow> insert_or_ignore db t = db"
    by (simp add: insert_or_ignore_def)
  have pk: "primary_key = open_time_ms"
    by (rule ext) (simp add: primary_key_def)
  have one: "distinct (map open_time_ms (executemany db records))
      \<and> length (filter (\<lambda>r. open_time_ms r = k) (executemany db records)) \<le> 1"
    if d: "distinct (map open_time_ms db)"
  proof -
    have dd: "distinct (map open_time_ms (executemany db records))"
      using distinct_executemany [of db records] d by (simp add: pk)
    then show ?thesis using at_most_one [of open_time_ms] by blast
  qed
  show ?thesis using idem pre ign one by simp
qed

theorem merge_idempotent_witness:
  "distinct (map open_time_ms [sample_row 1483228800000 ''2017-01-01 02:00'' (Some (Fin 1))])
   \<and> executemany [sample_row 1483228800000 ''2017-01-01 02:00'' (Some (Fin 1))]
        [(1483228800000, ''2017-01-01 02:00'', Fin 2, Fin 2, Fin 2, Fin 2, Fin 2),
         (1483228860000, ''2017-01-01 02:01'', Fin 3, Fin 3, Fin 3, NaN, Fin 3)]
      = [sample_row 1483228800000 ''2017-01-01 02:00'' (Some (Fin 1)),
         \<lparr>open_time_ms = 1483228860000, open_time = ''2017-01-01 02:01'', open_val = Some (Fin 3),
          high = Some (Fin 3), low = Some (Fin 3), close = None, volume = Some (Fin 3)\<rparr>]
   \<and> distinct (map open_time_ms (executemany [sample_row 1483228800000 ''2017-01-01 02:00'' (Some (Fin 1))]
        [(1483228800000, ''2017-01-01 02:00'', Fin 2, Fin 2, Fin 2, Fin 2, Fin 2),
         (1483228860000, ''2017-01-01 02:01'', Fin 3, Fin 3, Fin 3, NaN, Fin 3)]))
   \<and> insert_or_ignore [sample_row 1483228800000 ''2017-01-01 02:00'' (Some (Fin 1))]
        (1483228800000, ''2017-01-01 02:00'', Fin 2, Fin 2, Fin 2, Fin 2, Fin 2)
      = [sample_row 1483228800000 ''2017-01-01 02:00'' (Some (Fin 1))]"
  using merge_idempotent [of "[sample_row 1483228800000 ''2017-01-01 02:00'' (Some (Fin 1))]"
      "[(1483228800000, ''2017-01-01 02:00'', Fin 2, Fin 2, Fin 2, Fin 2, Fin 2),
         (1483228860000, ''2017-01-01 02:01'', Fin 3, Fin 3, Fin 3, NaN, Fin 3)]"
      "(1483228800000, ''2017-01-01 02:00'', Fin 2, Fin 2, Fin 2, Fin 2, Fin 2)" 0]
  by (simp add: executemany_def insert_or_ignore_def to_row_def primary_key_def sample_row_def bind_float_def)

lemma fold_max_Max:
  "fold (\<lambda>x m. max m (f x)) rs (a::int) = Max (insert a (f ` set rs))"
proof (induction rs arbitrary: a)
  case Nil
  show ?case by simp
next
  case (Cons r rs)
  have "Max (insert (max a (f r)) (f ` set rs)) = Max (insert a (insert (f r) (f ` set rs)))"
  proof (cases "set rs = {}")
    case True
    then show ?thesis by (simp add: max.commute)
  next
    case False
    then show ?thesis by (simp add: max.assoc)
  qed
  with Cons.IH [of "max a (f r)"] show ?case by simp
qed

lemma select_max_nonempty:
  "db \<noteq> [] \<Longrightarrow> select_max_open_time_ms db = Some (Max (open_time_ms ` set db))"
  by (cases db) (simp_all add: select_max_open_time_ms_def fold_max_Max)

lemma epoch_floor_value: "epoch_floor = 1483228800000"
  by (simp add: epoch_floor_def timestamp_def ymd2ord_def days_before_year_def
      days_in_month_def is_leap_def eval_nat_numeral)

lemma fetch_call_start:
  "GetHistoricalKlines s i a b \<in> set (calls (sync_data to_numeric cl db)) \<Longrightarrow> a = start_ms db"
  by (auto simp: sync_data_def Let_def split: sum.splits if_splits)

text \<open>
  Claim C2. On an empty series \<open>start_ms\<close> is the epoch floor 2017-01-01T00:00:00Z, that is
  1483228800000 ms; otherwise it is the greatest stored \<open>open_time_ms\<close> plus 60000. This is
  the start every fetch of \<open>sync_data\<close> is made with.
\<close>

theorem start_ms_rule:
  "start_ms [] = 1483228800000
   \<and> epoch_floor = timestamp 2017 1 1 0 0 0 * 1000
   \<and> (db \<noteq> [] \<longrightarrow> start_ms db = Max (open_time_ms ` set db) + 60000)
   \<and> (GetHistoricalKlines s i a b \<in> set (calls (sync_data to_numeric cl db)) \<longrightarrow>
        a = (if db = [] then 1483228800000 else Max (open_time_ms ` set db) + 60000))"
proof -
  have e: "start_ms [] = 1483228800000"
    by (simp add: start_ms_def select_max_open_time_ms_def epoch_floor_value)
  have n: "db \<noteq> [] \<longrightarrow> start_ms db = Max (open_time_ms ` set db) + 60000"
    by (simp add: start_ms_def select_max_nonempty)
  have c: "GetHistoricalKlines s i a b \<in> set (calls (sync_data to_numeric cl db)) \<longrightarrow>
        a = (if db = [] then 1483228800000 else Max (open_time_ms ` set db) + 60000)"
    using fetch_call_start [of s i a b to_numeric cl db] e n by auto
  show ?thesis using e n c by (simp add: epoch_floor_def)
qed

theorem start_ms_rule_witness:
  "[sample_row 1483228800000 ''2017-01-01 02:00'' None,
    sample_row 1483228920000 ''2017-01-01 02:02'' None,
    sample_row 1483228860000 ''2017-01-01 02:01'' None] \<noteq> []
   \<and> start_ms [sample_row 1483228800000 ''2017-01-01 02:00'' None,
        sample_row 1483228920000 ''2017-01-01 02:02'' None,
        sample_row 1483228860000 ''2017-01-01 02:01'' None] = 1483228980000
   \<and> GetHistoricalKlines symbol interval 1483228800000 1483228860000
       \<in> set (calls (sync_data (\<lambda>s. NaN)
           \<lparr>get_server_time = Inr 1483228860001,
            get_historical_klines = (\<lambda>s i a b. Inr [])\<rparr> []))"
  using start_ms_rule [where db = "[sample_row 1483228800000 ''2017-01-01 02:00'' None,
        sample_row 1483228920000 ''2017-01-01 02:02'' None,
        sample_row 1483228860000 ''2017-01-01 02:01'' None]"]
    start_ms_rule [where db = "[]" and to_numeric = "\<lambda>s. NaN"
        and cl = "\<lparr>get_server_time = Inr 1483228860001,
          get_historical_klines = (\<lambda>s i a b. Inr [])\<rparr>"
        and s = symbol and i = interval and a = 1483228800000 and b = 1483228860000]
  by (simp add: sample_row_def sync_data_def start_ms_def end_ms_def
      select_max_open_time_ms_def epoch_floor_value)

text \<open>
  Claim C3. \<open>end_ms\<close> is the server time floored to a multiple of 60000 ms, and when
  \<open>start_ms \<ge> end_ms\<close> the run reports "No new data to sync." as a normal result, having
  called neither the historical fetch nor the store's insert: the store is unchanged.
\<close>

theorem end_ms_rule:
  "end_ms server_ms \<le> server_ms \<and> server_ms < end_ms server_ms + 60000
   \<and> end_ms server_ms mod 60000 = 0
   \<and> end_ms server_ms = 60000 * (server_ms div 60000)
   \<and> (get_server_time cl = Inr server_ms \<and> start_ms db \<ge> end_ms server_ms \<longrightarrow>
        sync_data to_numeric cl db =
          \<lparr>outcome = Inr NoNewData, db_after = db, calls = [SelectMax, GetServerTime]\<rparr>)
   \<and> (GetHistoricalKlines s i a b \<in> set (calls (sync_data to_numeric cl db)) \<longrightarrow>
        (\<exists>t. get_server_time cl = Inr t \<and> b = end_ms t \<and> a < b))"
proof -
  have 1: "end_ms server_ms \<le> server_ms \<and> server_ms < end_ms server_ms + 60000"
    by (simp add: end_ms_def)
  have 2: "end_ms server_ms = 60000 * (server_ms div 60000)"
    unfolding end_ms_def by (simp add: minus_mod_eq_mult_div)
  have 3: "end_ms server_ms mod 60000 = 0"
    unfolding 2 by simp
  have 4: "get_server_time cl = Inr server_ms \<and> start_ms db \<ge> end_ms server_ms \<longrightarrow>
        sync_data to_numeric cl db =
          \<lparr>outcome = Inr NoNewData, db_after = db, calls = [SelectMax, GetServerTime]\<rparr>"
    by (simp add: sync_data_def)
  have 5: "GetHistoricalKlines s i a b \<in> set (calls (sync_data to_numeric cl db)) \<longrightarrow>
        (\<exists>t. get_server_time cl = Inr t \<and> b = end_ms t \<and> a < b)"
    by (auto simp: sync_data_def Let_def split: sum.splits if_splits)
  show ?thesis using 1 2 3 4 5 by blast
qed

theorem end_ms_rule_witness:
  "end_ms 1483228859999 = 1483228800000
   \<and> get_server_time \<lparr>get_server_time = Inr 1483228859999,
        get_historical_klines = (\<lambda>s i a b. Inl ExchangeError)\<rparr> = Inr 1483228859999
   \<and> start_ms [] \<ge> end_ms 1483228859999
   \<and> sync_data (\<lambda>s. NaN) \<lparr>get_server_time = Inr 1483228859999,
        get_historical_klines = (\<lambda>s i a b. Inl ExchangeError)\<rparr> []
       = \<lparr>outcome = Inr NoNewData, db_after = [], calls = [SelectMax, GetServerTime]\<rparr>
   \<and> GetHistoricalKlines symbol interval 1483228800000 1483228860000
       \<in> set (calls (sync_data (\<lambda>s. NaN)
           \<lparr>get_server_time = Inr 1483228860001,
            get_historical_klines = (\<lambda>s i a b. Inr [])\<rparr> []))"
  using end_ms_rule [where server_ms = 1483228859999 and db = "[]" and to_numeric = "\<lambda>s. NaN"
        and cl = "\<lparr>get_server_time = Inr 1483228859999,
          get_historical_klines = (\<lambda>s i a b. Inl ExchangeError)\<rparr>"]
    end_ms_rule [where server_ms = 1483228860001 and db = "[]" and to_numeric = "\<lambda>s. NaN"
        and cl = "\<lparr>get_server_time = Inr 1483228860001,
          get_historical_klines = (\<lambda>s i a b. Inr [])\<rparr>"
        and s = symbol and i = interval and a = 1483228800000 and b = 1483228860000]
  by (simp add: sync_data_def start_ms_def end_ms_def select_max_open_time_ms_def epoch_floor_value)


subsection \<open>Normalization\<close>

lemma sequence_Inr: "sequence xs = Inr ys \<longleftrightarrow> xs = map Inr ys"
proof (induction xs arbitrary: ys)
  case Nil
  show ?case by auto
next
  case (Cons x xs)
  show ?case
  proof (cases x)
    case (Inl e)
    then show ?thesis by auto
  next
    case (Inr v)
    show ?thesis
    proof (cases "sequence xs")
      case (Inl e)
      with Inr Cons.IH show ?thesis by (cases ys) auto
    next
      case r: (Inr vs)
      with Inr Cons.IH [of vs] show ?thesis by (cases ys) auto
    qed
  qed
qed

lemma floor_min_shift:
  "floor_min ((ms + 7200000) * 1000000) = ((ms + 7200000) div 60000) * 60000000000"
proof -
  define x where "x = ms + 7200000"
  have "(x * 1000000) mod (60000 * 1000000) = (x mod 60000) * 1000000"
    by (simp only: mult_mod_left)
  then have "floor_min (x * 1000000) = (x - x mod 60000) * 1000000"
    by (simp add: floor_min_def algebra_simps)
  also have "x - x mod 60000 = (x div 60000) * 60000"
    by (simp add: minus_mod_eq_div_mult)
  finally show ?thesis by (simp add: x_def)
qed

lemma minute_fields:
  fixes m :: int
  shows "m * 60000000000 div 1000000000 = m * 60"
    and "m * 60 div 86400 = m div 1440"
    and "m * 60 mod 86400 div 3600 = m mod 1440 div 60"
    and "m * 60 mod 86400 mod 3600 div 60 = m mod 60"
proof -
  have "m * 60000000000 = m * 60 * 1000000000" by simp
  then show "m * 60000000000 div 1000000000 = m * 60"
    by (simp only: nonzero_mult_div_cancel_right)
  have a: "(x * 60) div (y * 60) = x div y" for x y :: int
    by (rule div_mult_mult2) simp
  have b: "(x * 60) mod (y * 60) = (x mod y) * 60" for x y :: int
    by (rule mod_mult_mult2)
  show "m * 60 div 86400 = m div 1440"
    using a [of m 1440] by simp
  have c: "m * 60 mod 86400 = (m mod 1440) * 60"
    using b [of m 1440] by simp
  show "m * 60 mod 86400 div 3600 = m mod 1440 div 60"
    unfolding c using a [of "m mod 1440" 60] by simp
  have "(m mod 1440) * 60 mod 3600 = (m mod 1440 mod 60) * 60"
    using b [of "m mod 1440" 60] by simp
  also have "m mod 1440 mod 60 = m mod 60"
    by (rule mod_mod_cancel) simp
  finally show "m * 60 mod 86400 mod 3600 div 60 = m mod 60"
    unfolding c by simp
qed

lemma strftime_display:
  "strftime (floor_min (ms * 1000000 + 7200000000000)) = display_string ms"
proof -
  have "ms * 1000000 + 7200000000000 = (ms + 7200000) * 1000000" by simp
  then show ?thesis
    unfolding strftime_def display_string_def Let_def
    by (simp only: floor_min_shift minute_fields) simp
qed


lemma itertuples_map:
  "itertuples (map f1 xs) (map f2 xs) (map f3 xs) (map f4 xs) (map f5 xs) (map f6 xs) (map f7 xs)
     = map (\<lambda>x. (f1 x, f2 x, f3 x, f4 x, f5 x, f6 x, f7 x)) xs"
  by (induction xs) simp_all

lemma sequence_map_ok:
  "(\<And>x. x \<in> set xs \<Longrightarrow> f x = Inr (g x)) \<Longrightarrow> sequence (map f xs) = Inr (map g xs)"
  by (induction xs) simp_all


lemma normalize_ok:
  assumes rep: "list_all (\<lambda>r. representable (raw_open_time r)) raw_data"
  shows "normalize to_numeric raw_data = Inr (map (normalize_row to_numeric) raw_data)"
proof -
  have r: "- 9223372036854 \<le> raw_open_time x \<and> raw_open_time x \<le> 9223364836854"
    if "x \<in> set raw_data" for x
    using rep that by (simp add: list_all_iff representable_def)
  have e1: "astype_int64 (raw_open_time x) = Inr (raw_open_time x)"
    if "x \<in> set raw_data" for x
    using r [OF that] by (simp add: astype_int64_def)
  have e2: "to_datetime (raw_open_time x) = Inr (raw_open_time x * 1000000)"
    if "x \<in> set raw_data" for x
    using r [OF that] by (simp add: to_datetime_def)
  have e3: "add_timedelta (hours 2) (raw_open_time x * 1000000)
      = Inr (raw_open_time x * 1000000 + 7200000000000)"
    if "x \<in> set raw_data" for x
    using r [OF that] by (simp add: add_timedelta_def hours_def)
  have 1: "sequence (map (\<lambda>r. astype_int64 (raw_open_time r)) raw_data)
      = Inr (map raw_open_time raw_data)"
    by (rule sequence_map_ok) (rule e1)
  have "sequence (map (\<lambda>r. to_datetime (raw_open_time r)) raw_data)
      = Inr (map (\<lambda>r. raw_open_time r * 1000000) raw_data)"
    by (rule sequence_map_ok) (rule e2)
  then have 2: "sequence (map to_datetime (map raw_open_time raw_data))
      = Inr (map (\<lambda>r. raw_open_time r * 1000000) raw_data)"
    by (simp only: map_map comp_def)
  have "sequence (map (\<lambda>r. add_timedelta (hours 2) (raw_open_time r * 1000000)) raw_data)
      = Inr (map (\<lambda>r. raw_open_time r * 1000000 + 7200000000000) raw_data)"
    by (rule sequence_map_ok) (rule e3)
  then have 3: "sequence (map (add_timedelta (hours 2)) (map (\<lambda>r. raw_open_time r * 1000000) raw_data))
      = Inr (map (\<lambda>r. raw_open_time r * 1000000 + 7200000000000) raw_data)"
    by (simp only: map_map comp_def)
  have 4: "map strftime (map floor_min (map (\<lambda>r. raw_open_time r * 1000000 + 7200000000000) raw_data))
      = map (\<lambda>r. display_string (raw_open_time r)) raw_data"
    by (simp only: map_map comp_def strftime_display)
  have "normalize to_numeric raw_data =
      Inr (itertuples (map raw_open_time raw_data)
            (map (\<lambda>r. display_string (raw_open_time r)) raw_data)
            (map (\<lambda>r. to_numeric (raw_open r)) raw_data)
            (map (\<lambda>r. to_numeric (raw_high r)) raw_data)
            (map (\<lambda>r. to_numeric (raw_low r)) raw_data)
            (map (\<lambda>r. to_numeric (raw_close r)) raw_data)
            (map (\<lambda>r. to_numeric (raw_volume r)) raw_data))"
    by (simp only: normalize_def 1 2 3 sum.case Let_def 4)
  also have "\<dots> = Inr (map (normalize_row to_numeric) raw_data)"
    by (simp only: itertuples_map normalize_row_def [abs_def])
  finally show ?thesis .
qed




lemma display_string_samples:
  "display_string 1483228800000 = ''2017-01-01 02:00''"
  "display_string 1483228859999 = ''2017-01-01 02:00''"
  "display_string 1483228860000 = ''2017-01-01 02:01''"
  "display_string 1483308000000 = ''2017-01-02 00:00''"
  "display_string 1709243999999 = ''2024-02-29 23:59''"
  by code_simp+


lemma executemany_member:
  "i < length records \<Longrightarrow> primary_key (to_row (records ! i)) \<notin> primary_key ` set db
     \<Longrightarrow> (\<forall>j<i. primary_key (to_row (records ! j)) \<noteq> primary_key (to_row (records ! i)))
     \<Longrightarrow> to_row (records ! i) \<in> set (executemany db records)"
proof (induction records arbitrary: db i)
  case Nil
  then show ?case by simp
next
  case (Cons t ts)
  show ?case
  proof (cases i)
    case 0
    with Cons.prems have "insert_or_ignore db t = db @ [to_row t]"
      by (simp add: insert_or_ignore_def)
    moreover obtain new where "executemany (db @ [to_row t]) ts = (db @ [to_row t]) @ new"
      using executemany_prefix by blast
    ultimately show ?thesis using 0 by (simp add: executemany_Cons)
  next
    case (Suc k)
    with Cons.prems have k: "k < length ts" by simp
    from Suc Cons.prems(3) have ne: "primary_key (to_row t) \<noteq> primary_key (to_row (ts ! k))"
      by auto
    with Suc Cons.prems(2)
    have "primary_key (to_row (ts ! k)) \<notin> primary_key ` set (insert_or_ignore db t)"
      by (simp add: keys_insert_or_ignore)
    moreover from Suc Cons.prems(3)
    have "\<forall>j<k. primary_key (to_row (ts ! j)) \<noteq> primary_key (to_row (ts ! k))"
      by auto
    ultimately have "to_row (ts ! k) \<in> set (executemany (insert_or_ignore db t) ts)"
      using Cons.IH [OF k] by blast
    with Suc show ?thesis by (simp add: executemany_Cons)
  qed
qed

lemma to_row_normalize_row:
  "to_row (normalize_row to_numeric r) =
     \<lparr>open_time_ms = raw_open_time r, open_time = display_string (raw_open_time r),
      open_val = bind_float (to_numeric (raw_open r)), high = bind_float (to_numeric (raw_high r)),
      low = bind_float (to_numeric (raw_low r)), close = bind_float (to_numeric (raw_close r)),
      volume = bind_float (to_numeric (raw_volume r))\<rparr>"
  by (simp add: to_row_def normalize_row_def)

lemma sync_data_inserts:
  assumes srv: "get_server_time cl = Inr server_ms"
    and win: "start_ms db < end_ms server_ms"
    and fetch: "get_historical_klines cl symbol interval (start_ms db) (end_ms server_ms) = Inr raw_data"
    and ne: "raw_data \<noteq> []"
    and norm: "normalize to_numeric raw_data = Inr records"
  shows "sync_data to_numeric cl db =
     \<lparr>outcome = Inr (Inserted (length records)
          (column_min (map (\<lambda>t. fst (snd t)) records))
          (column_max (map (\<lambda>t. fst (snd t)) records))),
      db_after = executemany db records,
      calls = [SelectMax, GetServerTime,
        GetHistoricalKlines symbol interval (start_ms db) (end_ms server_ms),
        ExecuteMany records]\<rparr>"
  using assms by (simp add: sync_data_def Let_def)


text \<open>
  Claim C5. In a run that fetched a batch, every row is normalized on its own: each of
  the five numeric columns of row \<open>i\<close> is stored as NULL exactly when its own text failed
  to parse, whatever the other fields and the other rows hold. No error is raised (the run
  ends with its "Inserted rows" report, for any batch whose open times are representable),
  every row of the batch is handed to the insert, and row \<open>i\<close> is in the store afterwards
  when its key was neither stored nor submitted earlier in the batch.
\<close>

theorem field_fault_tolerance:
  assumes srv: "get_server_time cl = Inr server_ms"
    and win: "start_ms db < end_ms server_ms"
    and fetch: "get_historical_klines cl symbol interval (start_ms db) (end_ms server_ms) = Inr raw_data"
    and rep: "list_all (\<lambda>r. representable (raw_open_time r)) raw_data"
    and i: "i < length raw_data"
  shows "normalize to_numeric raw_data = Inr (map (normalize_row to_numeric) raw_data)
     \<and> outcome (sync_data to_numeric cl db) =
          Inr (Inserted (length raw_data)
            (column_min (map (\<lambda>r. display_string (raw_open_time r)) raw_data))
            (column_max (map (\<lambda>r. display_string (raw_open_time r)) raw_data)))
     \<and> db_after (sync_data to_numeric cl db) =
          executemany db (map (normalize_row to_numeric) raw_data)
     \<and> ExecuteMany (map (normalize_row to_numeric) raw_data)
          \<in> set (calls (sync_data to_numeric cl db))
     \<and> open_time_ms (to_row (normalize_row to_numeric (raw_data ! i))) = raw_open_time (raw_data ! i)
     \<and> (open_val (to_row (normalize_row to_numeric (raw_data ! i))) = None
          \<longleftrightarrow> to_numeric (raw_open (raw_data ! i)) = NaN)
     \<and> (high (to_row (normalize_row to_numeric (raw_data ! i))) = None
          \<longleftrightarrow> to_numeric (raw_high (raw_data ! i)) = NaN)
     \<and> (low (to_row (normalize_row to_numeric (raw_data ! i))) = None
          \<longleftrightarrow> to_numeric (raw_low (raw_data ! i)) = NaN)
     \<and> (close (to_row (normalize_row to_numeric (raw_data ! i))) = None
          \<longleftrightarrow> to_numeric (raw_close (raw_data ! i)) = NaN)
     \<and> (volume (to_row (normalize_row to_numeric (raw_data ! i))) = None
          \<longleftrightarrow> to_numeric (raw_volume (raw_data ! i)) = NaN)
     \<and> (raw_open_time (raw_data ! i) \<notin> open_time_ms ` set db
          \<and> (\<forall>j<i. raw_open_time (raw_data ! j) \<noteq> raw_open_time (raw_data ! i)) \<longrightarrow>
            to_row (normalize_row to_numeric (raw_data ! i))
              \<in> set (db_after (sync_data to_numeric cl db)))"
proof -
  let ?records = "map (normalize_row to_numeric) raw_data"
  have norm: "normalize to_numeric raw_data = Inr ?records"
    using rep by (rule normalize_ok)
  from i have ne: "raw_data \<noteq> []" by auto
  have cols: "map (\<lambda>t. fst (snd t)) ?records = map (\<lambda>r. display_string (raw_open_time r)) raw_data"
    by (simp add: normalize_row_def)
  have run: "sync_data to_numeric cl db =
     \<lparr>outcome = Inr (Inserted (length raw_data)
          (column_min (map (\<lambda>r. display_string (raw_open_time r)) raw_data))
          (column_max (map (\<lambda>r. display_string (raw_open_time r)) raw_data))),
      db_after = executemany db ?records,
      calls = [SelectMax, GetServerTime,
        GetHistoricalKlines symbol interval (start_ms db) (end_ms server_ms),
        ExecuteMany ?records]\<rparr>"
    using sync_data_inserts [OF srv win fetch ne norm] by (simp only: cols length_map)
  have fields: "open_time_ms (to_row (normalize_row to_numeric (raw_data ! i))) = raw_open_time (raw_data ! i)
     \<and> (open_val (to_row (normalize_row to_numeric (raw_data ! i))) = None
          \<longleftrightarrow> to_numeric (raw_open (raw_data ! i)) = NaN)
     \<and> (high (to_row (normalize_row to_numeric (raw_data ! i))) = None
          \<longleftrightarrow> to_numeric (raw_high (raw_data ! i)) = NaN)
     \<and> (low (to_row (normalize_row to_numeric (raw_data ! i))) = None
          \<longleftrightarrow> to_numeric (raw_low (raw_data ! i)) = NaN)
     \<and> (close (to_row (normalize_row to_numeric (raw_data ! i))) = None
          \<longleftrightarrow> to_numeric (raw_close (raw_data ! i)) = NaN)
     \<and> (volume (to_row (normalize_row to_numeric (raw_data ! i))) = None
          \<longleftrightarrow> to_numeric (raw_volume (raw_data ! i)) = NaN)"
    by (simp add: to_row_normalize_row bind_float_def)
  have key: "primary_key (to_row (normalize_row to_numeric r)) = raw_open_time r" for r
    by (simp add: to_row_normalize_row primary_key_def)
  have pk: "primary_key ` set db = open_time_ms ` set db"
    by (simp add: primary_key_def [abs_def])
  have ins: "to_row (normalize_row to_numeric (raw_data ! i)) \<in> set (executemany db ?records)"
    if new: "raw_open_time (raw_data ! i) \<notin> open_time_ms ` set db"
      and first: "\<forall>j<i. raw_open_time (raw_data ! j) \<noteq> raw_open_time (raw_data ! i)"
  proof -
    have "to_row (?records ! i) \<in> set (executemany db ?records)"
    proof (rule executemany_member)
      show "i < length ?records" using i by simp
      show "primary_key (to_row (?records ! i)) \<notin> primary_key ` set db"
        using i new by (simp add: key pk)
      show "\<forall>j<i. primary_key (to_row (?records ! j)) \<noteq> primary_key (to_row (?records ! i))"
        using i first by (simp add: key)
    qed
    with i show ?thesis by simp
  qed
  show ?thesis
    unfolding run using norm fields ins by simp
qed

theorem field_fault_tolerance_witness:
  "db_after (sync_data sample_to_numeric
       \<lparr>get_server_time = Inr 1483228923456,
        get_historical_klines = (\<lambda>s i a b.
          Inr [sample_kline 1483228800000 ''n/a'', sample_kline 1483228860000 ''431.9''])\<rparr> [])
     = [\<lparr>open_time_ms = 1483228800000, open_time = ''2017-01-01 02:00'',
         open_val = Some (Fin (8623 / 20)), high = Some (Fin (4319 / 10)), low = Some (Fin 430),
         close = None, volume = Some (Fin (25 / 2))\<rparr>,
        \<lparr>open_time_ms = 1483228860000, open_time = ''2017-01-01 02:01'',
         open_val = Some (Fin (8623 / 20)), high = Some (Fin (4319 / 10)), low = Some (Fin 430),
         close = Some (Fin (4319 / 10)), volume = Some (Fin (25 / 2))\<rparr>]
   \<and> outcome (sync_data sample_to_numeric
       \<lparr>get_server_time = Inr 1483228923456,
        get_historical_klines = (\<lambda>s i a b.
          Inr [sample_kline 1483228800000 ''n/a'', sample_kline 1483228860000 ''431.9''])\<rparr> [])
     = Inr (Inserted 2 ''2017-01-01 02:00'' ''2017-01-01 02:01'')
   \<and> sample_to_numeric (raw_close (sample_kline 1483228800000 ''n/a'')) = NaN
   \<and> start_ms [] < end_ms 1483228923456"
proof -
  have win: "start_ms [] < end_ms 1483228923456"
    by (simp add: start_ms_def select_max_open_time_ms_def epoch_floor_value end_ms_def)
  have rep: "list_all (\<lambda>r. representable (raw_open_time r))
      [sample_kline 1483228800000 ''n/a'', sample_kline 1483228860000 ''431.9'']"
    by (simp add: representable_def sample_kline_def)
  have srv: "get_server_time \<lparr>get_server_time = Inr 1483228923456,
        get_historical_klines = (\<lambda>s i a b.
          Inr [sample_kline 1483228800000 ''n/a'', sample_kline 1483228860000 ''431.9''])\<rparr>
      = Inr 1483228923456" by simp
  have fetch: "get_historical_klines \<lparr>get_server_time = Inr 1483228923456,
        get_historical_klines = (\<lambda>s i a b.
          Inr [sample_kline 1483228800000 ''n/a'', sample_kline 1483228860000 ''431.9''])\<rparr>
        symbol interval (start_ms []) (end_ms 1483228923456)
      = Inr [sample_kline 1483228800000 ''n/a'', sample_kline 1483228860000 ''431.9'']" by simp
  have i: "0 < length [sample_kline 1483228800000 ''n/a'', sample_kline 1483228860000 ''431.9'']"
    by simp
  from field_fault_tolerance [OF srv win fetch rep i, of sample_to_numeric] win
  show ?thesis
    by (simp add: normalize_row_def sample_kline_def sample_to_numeric_def
        display_string_samples executemany_def insert_or_ignore_def to_row_def bind_float_def
        primary_key_def column_min_def column_max_def)
qed

section \<open>The feature calculator\<close>

lemma read_sql_query_empty:
  "read_sql_query db a b = [] \<longleftrightarrow> {r \<in> set db. a \<le> open_time r \<and> open_time r \<le> b} = {}"
  by (auto simp: read_sql_query_def filter_empty_conv)

text \<open>
  Claim C6. \<open>calculate_target_percentiles\<close> raises the empty-range error exactly when no
  stored row has its \<open>open_time\<close> in the closed range, so always when the lower bound is
  above the upper one; a call that raises returns no percentiles.
\<close>

theorem empty_range_error:
  "(calculate_target_percentiles db a b window = Inl EmptyRange
      \<longleftrightarrow> {r \<in> set db. a \<le> open_time r \<and> open_time r \<le> b} = {})
   \<and> (b < a \<longrightarrow> calculate_target_percentiles db a b window = Inl EmptyRange)
   \<and> (calculate_target_percentiles db a b window = Inl EmptyRange \<longrightarrow>
        (\<forall>p. calculate_target_percentiles db a b window \<noteq> Inr p))"
proof -
  have 1: "calculate_target_percentiles db a b window = Inl EmptyRange
      \<longleftrightarrow> {r \<in> set db. a \<le> open_time r \<and> open_time r \<le> b} = {}"
    unfolding read_sql_query_empty [symmetric]
    by (simp add: calculate_target_percentiles_def Let_def)
  have 2: "{r \<in> set db. a \<le> open_time r \<and> open_time r \<le> b} = {}" if "b < a"
    using that by auto
  have 3: "\<forall>p. calculate_target_percentiles db a b window \<noteq> Inr p"
    if "calculate_target_percentiles db a b window = Inl EmptyRange"
    using that by simp
  from 1 2 3 show ?thesis by blast
qed

theorem empty_range_error_witness:
  "''2017-01-01 02:00'' < ''2017-01-01 02:05''
   \<and> calculate_target_percentiles
        [sample_row 1483228800000 ''2017-01-01 02:00'' (Some (Fin 10)),
         sample_row 1483228860000 ''2017-01-01 02:01'' (Some (Fin 12))]
        ''2017-01-01 02:05'' ''2017-01-01 02:00'' 3 = Inl EmptyRange
   \<and> calculate_target_percentiles
        [sample_row 1483228800000 ''2017-01-01 02:00'' (Some (Fin 10)),
         sample_row 1483228860000 ''2017-01-01 02:01'' (Some (Fin 12))]
        ''2017-01-01 02:02'' ''2017-01-01 02:09'' 3 = Inl EmptyRange
   \<and> calculate_target_percentiles
        [sample_row 1483228800000 ''2017-01-01 02:00'' (Some (Fin 10)),
         sample_row 1483228860000 ''2017-01-01 02:01'' (Some (Fin 12))]
        ''2017-01-01 02:01'' ''2017-01-01 02:09'' 0 = Inl InvalidWindow"
  using empty_range_error [where a = "''2017-01-01 02:05''" and b = "''2017-01-01 02:00''"
      and window = 3
      and db = "[sample_row 1483228800000 ''2017-01-01 02:00'' (Some (Fin 10)),
         sample_row 1483228860000 ''2017-01-01 02:01'' (Some (Fin 12))]"]
    empty_range_error [where a = "''2017-01-01 02:02''" and b = "''2017-01-01 02:09''"
      and window = 3
      and db = "[sample_row 1483228800000 ''2017-01-01 02:00'' (Some (Fin 10)),
         sample_row 1483228860000 ''2017-01-01 02:01'' (Some (Fin 12))]"]
  by (simp add: sample_row_def calculate_target_percentiles_def read_sql_query_def)

lemma sorted_filter': "sorted xs \<Longrightarrow> sorted (filter P xs)"
  by (rule sorted_filter [of "\<lambda>x. x", simplified])

text \<open>
  Claim C9, as amended. The query has no \<open>ORDER BY\<close>: it returns the rows of the range in
  the scan order of the table, and the rolling maximum is taken over the close column in
  that order. The rows are in ascending \<open>open_time\<close> order whenever the table is.
\<close>

theorem query_keeps_scan_order:
  "map fst (read_sql_query db a b) = filter (\<lambda>t. a \<le> t \<and> t \<le> b) (map open_time db)
   \<and> close_column (read_sql_query db a b) =
        map (\<lambda>r. read_float (close r)) (filter (\<lambda>r. a \<le> open_time r \<and> open_time r \<le> b) db)
   \<and> (sorted (map open_time db) \<longrightarrow> sorted (map fst (read_sql_query db a b)))"
proof -
  have 1: "map fst (read_sql_query db a b) = filter (\<lambda>t. a \<le> t \<and> t \<le> b) (map open_time db)"
    by (simp add: read_sql_query_def filter_map comp_def)
  have 2: "close_column (read_sql_query db a b) =
        map (\<lambda>r. read_float (close r)) (filter (\<lambda>r. a \<le> open_time r \<and> open_time r \<le> b) db)"
    by (simp add: read_sql_query_def close_column_def comp_def)
  have 3: "sorted (map fst (read_sql_query db a b))" if "sorted (map open_time db)"
    unfolding 1 using that by (rule sorted_filter')
  from 1 2 3 show ?thesis by simp
qed

theorem query_keeps_scan_order_witness:
  "sorted (map open_time
        [sample_row 1483228800000 ''2017-01-01 02:00'' (Some (Fin 10)),
         sample_row 1483228860000 ''2017-01-01 02:01'' (Some (Fin 12)),
         sample_row 1483228920000 ''2017-01-01 02:02'' None])
   \<and> read_sql_query
        [sample_row 1483228800000 ''2017-01-01 02:00'' (Some (Fin 10)),
         sample_row 1483228860000 ''2017-01-01 02:01'' (Some (Fin 12)),
         sample_row 1483228920000 ''2017-01-01 02:02'' None]
        ''2017-01-01 02:01'' ''2017-01-01 02:02''
      = [(''2017-01-01 02:01'', Some (Fin 12)), (''2017-01-01 02:02'', None)]
   \<and> sorted (map fst (read_sql_query
        [sample_row 1483228800000 ''2017-01-01 02:00'' (Some (Fin 10)),
         sample_row 1483228860000 ''2017-01-01 02:01'' (Some (Fin 12)),
         sample_row 1483228920000 ''2017-01-01 02:02'' None]
        ''2017-01-01 02:01'' ''2017-01-01 02:02''))"
  using query_keeps_scan_order [where a = "''2017-01-01 02:01''" and b = "''2017-01-01 02:02''"
      and db = "[sample_row 1483228800000 ''2017-01-01 02:00'' (Some (Fin 10)),
         sample_row 1483228860000 ''2017-01-01 02:01'' (Some (Fin 12)),
         sample_row 1483228920000 ''2017-01-01 02:02'' None]"]
  by (simp add: sample_row_def read_sql_query_def read_float_def)

theorem query_order_counterexample:
  "\<not> sorted (map fst (read_sql_query
        [sample_row 1483228860000 ''2017-01-01 02:01'' (Some (Fin 12)),
         sample_row 1483228800000 ''2017-01-01 02:00'' (Some (Fin 10))]
        ''2017-01-01 02:00'' ''2017-01-01 02:01''))"
  by (simp add: sample_row_def read_sql_query_def read_float_def)
















text \<open>
  Claim C8, as amended. For the closes 10, 12, 11, 15, 9 and a window of 3 the rolling
  maxima are 10, 12, 12, 15, 15 and the ratios 1, 1, 12/11, 1, 5/3; sorted, the ratios are
  1, 1, 1, 12/11, 5/3, so the median p50 is 1, p75 is 12/11 (1.0909...) and p90, interpolated
  linearly at position 3.6, is 79/55 (1.43636...).
\<close>

theorem percentile_example:
  assumes closes: "close_column (read_sql_query db a b) = map Fin [10, 12, 11, 15, 9]"
  shows "rolling_max 3 (close_column (read_sql_query db a b)) = map Fin [10, 12, 12, 15, 15]
     \<and> ratio_column 3 (close_column (read_sql_query db a b)) = map Fin [1, 1, 12 / 11, 1, 5 / 3]
     \<and> calculate_target_percentiles db a b 3 =
          Inr \<lparr>p50 = Fin 1, p75 = Fin (12 / 11), p90 = Fin (79 / 55)\<rparr>"
proof -
  have rm: "rolling_max 3 [Fin 10, Fin 12, Fin 11, Fin 15, Fin 9]
      = [Fin 10, Fin 12, Fin 12, Fin 15, Fin 15]"
    by (simp add: rolling_max_def nanmax_def notna_def fmax_def upt_rec)
  have ratio: "ratio_column 3 [Fin 10, Fin 12, Fin 11, Fin 15, Fin 9]
      = [Fin 1, Fin 1, Fin (12 / 11), Fin 1, Fin (5 / 3)]"
    unfolding ratio_column_def rm by simp
  have srt: "sort_f (dropna [Fin 1, Fin 1, Fin (12 / 11), Fin 1, Fin (5 / 3)])
      = [Fin 1, Fin 1, Fin 1, Fin (12 / 11), Fin (5 / 3)]"
    by (simp add: sort_f_def dropna_def notna_def)
  have q50: "quantile [Fin 1, Fin 1, Fin (12 / 11), Fin 1, Fin (5 / 3)] (1 / 2) = Fin 1"
    unfolding quantile_def srt by (simp add: lerp_def fsub_def)
  have q75: "quantile [Fin 1, Fin 1, Fin (12 / 11), Fin 1, Fin (5 / 3)] (3 / 4) = Fin (12 / 11)"
    unfolding quantile_def srt by (simp add: lerp_def fsub_def)
  have q90: "quantile [Fin 1, Fin 1, Fin (12 / 11), Fin 1, Fin (5 / 3)] (9 / 10) = Fin (79 / 55)"
    unfolding quantile_def srt by (simp add: lerp_def fsub_def)
  from closes have cl: "close_column (read_sql_query db a b) = [Fin 10, Fin 12, Fin 11, Fin 15, Fin 9]"
    by simp
  then have ne: "read_sql_query db a b \<noteq> []" by (auto simp: close_column_def)
  then obtain t ts where df: "read_sql_query db a b = t # ts" by (cases "read_sql_query db a b") auto
  with cl have "read_float (snd t) = Fin 10" by (simp add: close_column_def)
  then have "snd t \<noteq> None" by (auto simp: read_float_def split: option.splits)
  with df have float: "\<not> object_dtype (read_sql_query db a b)" by (simp add: object_dtype_def)
  have "calculate_target_percentiles db a b 3 =
          Inr \<lparr>p50 = Fin 1, p75 = Fin (12 / 11), p90 = Fin (79 / 55)\<rparr>"
    using ne float by (simp add: calculate_target_percentiles_def Let_def cl ratio q50 q75 q90)
  with rm ratio cl show ?thesis by simp
qed

theorem percentile_example_witness:
  "close_column (read_sql_query
        [sample_row 1483228800000 ''2017-01-01 02:00'' (Some (Fin 10)),
         sample_row 1483228860000 ''2017-01-01 02:01'' (Some (Fin 12)),
         sample_row 1483228920000 ''2017-01-01 02:02'' (Some (Fin 11)),
         sample_row 1483228980000 ''2017-01-01 02:03'' (Some (Fin 15)),
         sample_row 1483229040000 ''2017-01-01 02:04'' (Some (Fin 9))]
        ''2017-01-01 02:00'' ''2017-01-01 02:04'') = map Fin [10, 12, 11, 15, 9]
   \<and> calculate_target_percentiles
        [sample_row 1483228800000 ''2017-01-01 02:00'' (Some (Fin 10)),
         sample_row 1483228860000 ''2017-01-01 02:01'' (Some (Fin 12)),
         sample_row 1483228920000 ''2017-01-01 02:02'' (Some (Fin 11)),
         sample_row 1483228980000 ''2017-01-01 02:03'' (Some (Fin 15)),
         sample_row 1483229040000 ''2017-01-01 02:04'' (Some (Fin 9))]
        ''2017-01-01 02:00'' ''2017-01-01 02:04'' 3
      = Inr \<lparr>p50 = Fin 1, p75 = Fin (12 / 11), p90 = Fin (79 / 55)\<rparr>"
proof -
  have closes: "close_column (read_sql_query
        [sample_row 1483228800000 ''2017-01-01 02:00'' (Some (Fin 10)),
         sample_row 1483228860000 ''2017-01-01 02:01'' (Some (Fin 12)),
         sample_row 1483228920000 ''2017-01-01 02:02'' (Some (Fin 11)),
         sample_row 1483228980000 ''2017-01-01 02:03'' (Some (Fin 15)),
         sample_row 1483229040000 ''2017-01-01 02:04'' (Some (Fin 9))]
        ''2017-01-01 02:00'' ''2017-01-01 02:04'') = map Fin [10, 12, 11, 15, 9]"
    by (simp add: read_sql_query_def close_column_def sample_row_def read_float_def)
  from percentile_example [OF closes] closes show ?thesis by simp
qed

theorem percentile_example_counterexample:
  "\<not> (map_sum id p50 (calculate_target_percentiles
        [sample_row 1483228800000 ''2017-01-01 02:00'' (Some (Fin 10)),
         sample_row 1483228860000 ''2017-01-01 02:01'' (Some (Fin 12)),
         sample_row 1483228920000 ''2017-01-01 02:02'' (Some (Fin 11)),
         sample_row 1483228980000 ''2017-01-01 02:03'' (Some (Fin 15)),
         sample_row 1483229040000 ''2017-01-01 02:04'' (Some (Fin 9))]
        ''2017-01-01 02:00'' ''2017-01-01 02:04'' 3) = Inr (Fin (12 / 11)))"
proof -
  have "calculate_target_percentiles
        [sample_row 1483228800000 ''2017-01-01 02:00'' (Some (Fin 10)),
         sample_row 1483228860000 ''2017-01-01 02:01'' (Some (Fin 12)),
         sample_row 1483228920000 ''2017-01-01 02:02'' (Some (Fin 11)),
         sample_row 1483228980000 ''2017-01-01 02:03'' (Some (Fin 15)),
         sample_row 1483229040000 ''2017-01-01 02:04'' (Some (Fin 9))]
        ''2017-01-01 02:00'' ''2017-01-01 02:04'' 3
      = Inr \<lparr>p50 = Fin 1, p75 = Fin (12 / 11), p90 = Fin (79 / 55)\<rparr>"
    by (simp add: calculate_target_percentiles_def sample_row_def read_sql_query_def
        read_float_def close_column_def object_dtype_def ratio_column_def rolling_max_def
        nanmax_def notna_def fmax_def quantile_def dropna_def sort_f_def lerp_def fsub_def upt_rec)
  then show ?thesis by simp
qed








end
